theory Spec2Isabelle
  imports Main "HOL-Library.AList"
begin

section \<open>Python strings\<close>

text \<open>
  A Python \<open>str\<close> is modelled as a \<open>string\<close> whose characters are read as code points
  below 256. \<open>is_space\<close> is \<open>str.isspace\<close> on one such code point (tab to carriage
  return, the four separators 28 to 31, space, NEL and the no-break space), \<open>strip\<close> is
  \<open>str.strip()\<close>, \<open>lower\<close> is \<open>str.lower()\<close> (the ASCII capitals and the Latin-1 capitals
  except the multiplication sign), \<open>split_on\<close> is \<open>str.split(sep)\<close> for a separator of one
  character and \<open>join\<close> is \<open>sep.join(items)\<close>.
\<close>

definition is_space :: "char \<Rightarrow> bool" where
  "is_space c = (let n = (of_char c :: nat) in
     (9 \<le> n \<and> n \<le> 13) \<or> (28 \<le> n \<and> n \<le> 32) \<or> n = 133 \<or> n = 160)"

definition strip :: "string \<Rightarrow> string" where
  "strip s = rev (dropWhile is_space (rev (dropWhile is_space s)))"

definition lower_char :: "char \<Rightarrow> char" where
  "lower_char c = (let n = (of_char c :: nat) in
     if (65 \<le> n \<and> n \<le> 90) \<or> (192 \<le> n \<and> n \<le> 222 \<and> n \<noteq> 215)
     then char_of (n + 32) else c)"

definition lower :: "string \<Rightarrow> string" where
  "lower s = map lower_char s"

fun split_on :: "char \<Rightarrow> string \<Rightarrow> string list" where
  "split_on sep [] = [[]]"
| "split_on sep (c # cs) =
     (if c = sep then [] # split_on sep cs
      else (case split_on sep cs of
              [] \<Rightarrow> [[c]]
            | item # items \<Rightarrow> (c # item) # items))"

fun join :: "string \<Rightarrow> string list \<Rightarrow> string" where
  "join sep [] = []"
| "join sep [x] = x"
| "join sep (x # y # ys) = x @ sep @ join sep (y # ys)"

definition startswith :: "string \<Rightarrow> string \<Rightarrow> bool" where
  "startswith s p = (take (length p) s = p)"

text \<open>Truthiness of an \<open>Optional[str]\<close>: \<open>None\<close> and the empty string are false.\<close>

definition truthy :: "string option \<Rightarrow> bool" where
  "truthy v = (case v of None \<Rightarrow> False | Some s \<Rightarrow> s \<noteq> [])"

section \<open>Values, exceptions and the outside world\<close>

text \<open>Cell values handed to the write operations (\<open>List[Any]\<close>), and parsed JSON.\<close>

datatype pyval = PNone | PBool bool | PInt int | PStr string | PList "pyval list"

datatype json = JNull | JBool bool | JNum int | JStr string | JArr "json list"
  | JObj "(string \<times> json) list"

text \<open>
  The exceptions the code distinguishes, all subclasses of \<open>Exception\<close>. Each carries the
  text that \<open>str(e)\<close> gives; \<open>HttpError\<close> also carries \<open>e.resp.status\<close>.
  \<open>OtherError\<close> stands for every exception class the code names nowhere
  (\<open>PermissionError\<close>, \<open>ValueError\<close>, \<open>KeyError\<close>, a transport error and so on).
\<close>

datatype exn =
    HttpError nat string
  | GoogleSheetsAuthError string
  | FileNotFoundError string
  | JSONDecodeError string
  | OtherError string

fun str_exn :: "exn \<Rightarrow> string" where
  "str_exn (HttpError status s) = s"
| "str_exn (GoogleSheetsAuthError s) = s"
| "str_exn (FileNotFoundError s) = s"
| "str_exn (JSONDecodeError s) = s"
| "str_exn (OtherError s) = s"

text \<open>
  \<open>subprocess.run(cmd, capture_output=True, text=True, check=True)\<close>: the binary is
  missing (\<open>FileNotFoundError\<close>), the process exits with a non-zero status
  (\<open>CalledProcessError\<close>), it completes with its standard output, or the call raises
  something else (the binary is not executable, the output does not decode).
\<close>

datatype proc_result = FileNotFound | CalledProcessError | Completed string | Raised exn

record updates_info =
  updatedRange :: "string option"
  updatedRows :: "int option"
  updatedCells :: "int option"

record response =
  status_code :: nat
  text_of :: string
  json_of :: "exn + json"

text \<open>
  Everything the code reads from outside itself: the environment, the login name
  (\<open>getpass.getuser()\<close>, which can raise), child processes, the JSON parser (it returns the
  parsed value or raises, \<open>JSONDecodeError\<close> for a text that is not JSON), the Google client
  library (credentials \<open>'c\<close>, service \<open>'s\<close>) with the three \<open>values()\<close> requests, and the
  HTTP POST of the Linear client. A request either raises or returns the vendor's response.
\<close>

record ('c, 's) world =
  getenv :: "string \<Rightarrow> string option"
  getuser :: "exn + string"
  run :: "string list \<Rightarrow> proc_result"
  json_loads :: "string \<Rightarrow> exn + json"
  from_service_account_info :: "json \<Rightarrow> exn + 'c"
  from_service_account_file :: "string \<Rightarrow> exn + 'c"
  build :: "'c \<Rightarrow> exn + 's"
  values_get :: "'s \<Rightarrow> string \<Rightarrow> string \<Rightarrow> exn + string list list option"
  values_append :: "'s \<Rightarrow> string \<Rightarrow> string \<Rightarrow> pyval \<Rightarrow> exn + updates_info option"
  values_update :: "'s \<Rightarrow> string \<Rightarrow> string \<Rightarrow> pyval \<Rightarrow> exn + updates_info"
  requests_post :: "string \<Rightarrow> string \<Rightarrow> (string \<times> json) list \<Rightarrow> exn + response"

text \<open>
  The trace of effects of one call, in order: a credential strategy invoked, the
  \<open>op read\<close> of a resolved reference, \<open>json.loads\<close>, the two credential constructors,
  \<open>build\<close>, and the requests sent to the vendor.
\<close>

datatype event =
    Retrieve string
  | Deref string
  | JsonLoads string
  | FromInfo
  | FromFile string
  | Build
  | ValuesGet string string
  | ValuesAppend string string
  | ValuesUpdate string string

section \<open>Credential strategies of the spreadsheet client\<close>

text \<open>
  A strategy returns \<open>Optional[str]\<close> or raises: the two subprocess strategies catch
  \<open>FileNotFoundError\<close> and \<open>CalledProcessError\<close> only, and whatever else
  \<open>subprocess.run\<close> raises leaves them.
\<close>

definition from_env :: "('c, 's) world \<Rightarrow> exn + string option" where
  "from_env w =
     (case getenv w ''GOOGLE_SHEETS_SERVICE_ACCOUNT'' of
        None \<Rightarrow> Inr None
      | Some v \<Rightarrow> if v \<noteq> [] then Inr (Some (strip v)) else Inr None)"

definition from_keychain :: "('c, 's) world \<Rightarrow> exn + string option" where
  "from_keychain w =
     (let service = ''Google Sheets Service Account'';
          account = (case getenv w ''USER'' of None \<Rightarrow> ''default'' | Some u \<Rightarrow> u)
      in case run w [''security'', ''find-generic-password'', ''-s'', service, ''-a'', account, ''-w''] of
           Completed out \<Rightarrow>
             (let output = strip out in if output \<noteq> [] then Inr (Some output) else Inr None)
         | FileNotFound \<Rightarrow> Inr None
         | CalledProcessError \<Rightarrow> Inr None
         | Raised e \<Rightarrow> Inl e)"

definition from_1password :: "('c, 's) world \<Rightarrow> exn + string option" where
  "from_1password w =
     (let item_path = (case getenv w ''GOOGLE_SHEETS_1PASSWORD_PATH'' of
                         None \<Rightarrow> ''op://Personal/Google Sheets Service Account/credential''
                       | Some p \<Rightarrow> p)
      in case run w [''op'', ''read'', item_path] of
           Completed out \<Rightarrow>
             (let output = strip out in if output \<noteq> [] then Inr (Some output) else Inr None)
         | FileNotFound \<Rightarrow> Inr None
         | CalledProcessError \<Rightarrow> Inr None
         | Raised e \<Rightarrow> Inl e)"

definition from_json_env :: "('c, 's) world \<Rightarrow> exn + string option" where
  "from_json_env w =
     (case getenv w ''GOOGLE_SHEETS_SERVICE_ACCOUNT_JSON'' of
        None \<Rightarrow> Inr None
      | Some v \<Rightarrow> if v \<noteq> [] then Inr (Some (strip v)) else Inr None)"

definition CREDENTIAL_SOURCES ::
  "string \<Rightarrow> (('c, 's) world \<Rightarrow> exn + string option) option" where
  "CREDENTIAL_SOURCES = map_of
     [(''json'', from_json_env),
      (''env'', from_env),
      (''keychain'', from_keychain),
      (''1password'', from_1password)]"

section \<open>The resolution chain\<close>

text \<open>
  The comprehension \<open>[item.strip().lower() for item in source_env.split(",") if item.strip()]\<close>
  of \<open>get_service_account_credentials\<close> and of \<open>get_api_key\<close>.
\<close>

definition parse_sources :: "string \<Rightarrow> string list" where
  "parse_sources source_env =
     map (\<lambda>item. lower (strip item))
         (filter (\<lambda>item. strip item \<noteq> []) (split_on CHR '','' source_env))"

definition preferred_sources :: "('c, 's) world \<Rightarrow> string list" where
  "preferred_sources w =
     (case getenv w ''GOOGLE_SHEETS_CREDENTIAL_SOURCES'' of
        None \<Rightarrow> [''json'', ''env'', ''keychain'', ''1password'']
      | Some source_env \<Rightarrow>
          if source_env \<noteq> [] then parse_sources source_env
          else [''json'', ''env'', ''keychain'', ''1password''])"

text \<open>
  The loop \<open>for source in preferred_sources\<close>, the same in both clients. \<open>retriever()\<close> is
  called outside any \<open>try\<close>, so an exception of a retriever ends the loop and leaves the
  function. The loop returns the value that ended it (\<open>None\<close> when the order is exhausted) or
  the exception, the list \<open>tried\<close>, and the keys whose retriever it called, one entry per call.
\<close>

fun try_sources ::
  "(string \<Rightarrow> ('w \<Rightarrow> exn + string option) option) \<Rightarrow> 'w \<Rightarrow> string list \<Rightarrow> string list
     \<Rightarrow> string list \<Rightarrow> (exn + string option) \<times> string list \<times> string list" where
  "try_sources table w [] tried calls = (Inr None, tried, calls)"
| "try_sources table w (source # rest) tried calls =
     (case table source of
        None \<Rightarrow> try_sources table w rest (tried @ [source @ '' (unknown)'']) calls
      | Some retriever \<Rightarrow>
          (case retriever w of
             Inl e \<Rightarrow> (Inl e, tried, calls @ [source])
           | Inr v \<Rightarrow>
               if truthy v then (Inr v, tried, calls @ [source])
               else try_sources table w rest (tried @ [source]) (calls @ [source])))"

definition auth_error_msg :: "string list \<Rightarrow> string" where
  "auth_error_msg tried =
     ''Unable to retrieve Google Sheets service account credentials.\<newline>''
     @ (if tried \<noteq> [] then ''Tried sources: '' @ join '', '' tried @ ''\<newline>'' else [])
     @ ''Set GOOGLE_SHEETS_SERVICE_ACCOUNT environment variable, ''
     @ ''store credentials in Keychain, or configure 1Password.\<newline>''
     @ ''Override lookup order via GOOGLE_SHEETS_CREDENTIAL_SOURCES (comma separated).''"

text \<open>
  The second half of \<open>get_service_account_credentials\<close>: \<open>parse_or_load\<close> is the JSON
  attempt followed by the file attempt, \<open>load_credentials\<close> puts the \<open>op://\<close> check in
  front of it. The first \<open>try\<close>, around \<open>json.loads\<close> and
  \<open>from_service_account_info\<close>, catches \<open>JSONDecodeError\<close> only, the \<open>op read\<close> catches
  \<open>FileNotFoundError\<close> and \<open>CalledProcessError\<close> only, and the file attempt turns every
  exception into the authentication error.
\<close>

definition parse_or_load :: "('c, 's) world \<Rightarrow> string \<Rightarrow> (exn + 'c) \<times> event list" where
  "parse_or_load w credential_data =
     (let from_file =
            (case from_service_account_file w credential_data of
               Inr credentials \<Rightarrow> Inr credentials
             | Inl (FileNotFoundError m) \<Rightarrow>
                 Inl (GoogleSheetsAuthError
                        (''Service account file not found: '' @ credential_data))
             | Inl e \<Rightarrow>
                 Inl (GoogleSheetsAuthError
                        (''Failed to load service account credentials: '' @ str_exn e)))
      in case json_loads w credential_data of
           Inl (JSONDecodeError m) \<Rightarrow>
             (from_file, [JsonLoads credential_data, FromFile credential_data])
         | Inl e \<Rightarrow> (Inl e, [JsonLoads credential_data])
         | Inr creds_dict \<Rightarrow>
             (case from_service_account_info w creds_dict of
                Inl (JSONDecodeError m) \<Rightarrow>
                  (from_file, [JsonLoads credential_data, FromInfo, FromFile credential_data])
              | Inl e \<Rightarrow> (Inl e, [JsonLoads credential_data, FromInfo])
              | Inr credentials \<Rightarrow>
                  (Inr credentials, [JsonLoads credential_data, FromInfo])))"

definition load_credentials :: "('c, 's) world \<Rightarrow> string \<Rightarrow> (exn + 'c) \<times> event list" where
  "load_credentials w credential_data =
     (if startswith credential_data ''op://'' then
        (case run w [''op'', ''read'', credential_data] of
           Completed out \<Rightarrow>
             (case parse_or_load w (strip out) of (r, ev) \<Rightarrow> (r, Deref credential_data # ev))
         | FileNotFound \<Rightarrow>
             (Inl (GoogleSheetsAuthError
                     (''Failed to read 1Password reference: '' @ credential_data)),
              [Deref credential_data])
         | CalledProcessError \<Rightarrow>
             (Inl (GoogleSheetsAuthError
                     (''Failed to read 1Password reference: '' @ credential_data)),
              [Deref credential_data])
         | Raised e \<Rightarrow> (Inl e, [Deref credential_data]))
      else parse_or_load w credential_data)"

definition get_service_account_credentials :: "('c, 's) world \<Rightarrow> (exn + 'c) \<times> event list" where
  "get_service_account_credentials w =
     (case try_sources CREDENTIAL_SOURCES w (preferred_sources w) [] [] of
        (Inl e, tried, calls) \<Rightarrow> (Inl e, map Retrieve calls)
      | (Inr credential_data, tried, calls) \<Rightarrow>
          (if \<not> truthy credential_data
           then (Inl (GoogleSheetsAuthError (auth_error_msg tried)), map Retrieve calls)
           else (case load_credentials w (the credential_data) of
                   (r, ev) \<Rightarrow> (r, map Retrieve calls @ ev))))"

definition get_sheets_service :: "('c, 's) world \<Rightarrow> (exn + 's) \<times> event list" where
  "get_sheets_service w =
     (case get_service_account_credentials w of
        (Inl e, ev) \<Rightarrow>
          (Inl (GoogleSheetsAuthError (''Failed to create Sheets service: '' @ str_exn e)), ev)
      | (Inr credentials, ev) \<Rightarrow>
          (case build w credentials of
             Inl e \<Rightarrow>
               (Inl (GoogleSheetsAuthError (''Failed to create Sheets service: '' @ str_exn e)),
                ev @ [Build])
           | Inr service \<Rightarrow> (Inr service, ev @ [Build])))"

section \<open>Spreadsheet operations\<close>

text \<open>
  The response envelope: one constructor for each dictionary the operations build.
  \<open>ReadOk data rows columns\<close>, \<open>DictsOk data rows headers\<close>,
  \<open>AppendOk updated_range updated_rows\<close>,
  \<open>UpdateOk updated_range updated_rows updated_cells\<close> and \<open>FindOk row\<close> carry
  \<open>"success": True\<close>; \<open>Failure error\<close> is \<open>{"success": False, "error": error}\<close>.
  A row dictionary is an association list in insertion order.
\<close>

datatype envelope =
    ReadOk "string list list" nat nat
  | DictsOk "(string \<times> string) list list" nat "string list"
  | AppendOk string int
  | UpdateOk string int int
  | FindOk "nat option"
  | Failure string

fun success :: "envelope \<Rightarrow> bool" where
  "success (Failure msg) = False"
| "success r = True"

text \<open>The three \<open>except\<close> clauses that close every operation, in their order.\<close>

fun api_except :: "string \<Rightarrow> exn \<Rightarrow> envelope" where
  "api_except spreadsheet_id (HttpError status s) =
     (if status = 404 then Failure (''Spreadsheet or sheet not found: '' @ spreadsheet_id)
      else Failure (''API error: '' @ s))"
| "api_except spreadsheet_id (GoogleSheetsAuthError s) = Failure (''Authentication failed: '' @ s)"
| "api_except spreadsheet_id e = Failure (''Unexpected error: '' @ str_exn e)"

definition read_sheet ::
  "('c, 's) world \<Rightarrow> string \<Rightarrow> string \<Rightarrow> string option \<Rightarrow> envelope \<times> event list" where
  "read_sheet w spreadsheet_id sheet_name range_notation =
     (case get_sheets_service w of
        (Inl e, ev) \<Rightarrow> (api_except spreadsheet_id e, ev)
      | (Inr service, ev) \<Rightarrow>
          (let range_str = (if truthy range_notation
                            then sheet_name @ ''!'' @ the range_notation else sheet_name)
           in case values_get w service spreadsheet_id range_str of
                Inl e \<Rightarrow> (api_except spreadsheet_id e, ev @ [ValuesGet spreadsheet_id range_str])
              | Inr result \<Rightarrow>
                  (let vals = (case result of None \<Rightarrow> [] | Some v \<Rightarrow> v)
                   in (ReadOk vals (length vals) (if vals \<noteq> [] then length (hd vals) else 0),
                       ev @ [ValuesGet spreadsheet_id range_str]))))"

text \<open>
  \<open>dict(zip(headers, padded_row))\<close>: the pairs are inserted from left to right, a later
  pair with the same key replaces the value of the earlier one, and \<open>zip\<close> stops at the
  shorter list.
\<close>

definition row_dict :: "string list \<Rightarrow> string list \<Rightarrow> (string \<times> string) list" where
  "row_dict headers row =
     (let padded_row = row @ replicate (length headers - length row) []
      in fold (\<lambda>(k, v) d. AList.update k v d) (zip headers padded_row) [])"

definition read_sheet_as_dicts ::
  "('c, 's) world \<Rightarrow> string \<Rightarrow> string \<Rightarrow> string option \<Rightarrow> envelope \<times> event list" where
  "read_sheet_as_dicts w spreadsheet_id sheet_name range_notation =
     (case read_sheet w spreadsheet_id sheet_name range_notation of
        (ReadOk vals n c, ev) \<Rightarrow>
          (if vals = [] then (DictsOk [] 0 [], ev)
           else (let headers = hd vals;
                     data_rows = tl vals;
                     dict_data = map (row_dict headers) data_rows
                 in (DictsOk dict_data (length dict_data) headers, ev)))
      | (read_result, ev) \<Rightarrow> (read_result, ev))"

definition append_row ::
  "('c, 's) world \<Rightarrow> string \<Rightarrow> string \<Rightarrow> pyval \<Rightarrow> envelope \<times> event list" where
  "append_row w spreadsheet_id sheet_name vals =
     (case get_sheets_service w of
        (Inl e, ev) \<Rightarrow> (api_except spreadsheet_id e, ev)
      | (Inr service, ev) \<Rightarrow>
          (case values_append w service spreadsheet_id sheet_name (PList [vals]) of
             Inl e \<Rightarrow> (api_except spreadsheet_id e, ev @ [ValuesAppend spreadsheet_id sheet_name])
           | Inr result \<Rightarrow>
               (AppendOk
                  (case result of None \<Rightarrow> []
                   | Some u \<Rightarrow> (case updatedRange u of None \<Rightarrow> [] | Some r \<Rightarrow> r))
                  (case result of None \<Rightarrow> 0
                   | Some u \<Rightarrow> (case updatedRows u of None \<Rightarrow> 0 | Some n \<Rightarrow> n)),
                ev @ [ValuesAppend spreadsheet_id sheet_name])))"

definition append_rows ::
  "('c, 's) world \<Rightarrow> string \<Rightarrow> string \<Rightarrow> pyval \<Rightarrow> envelope \<times> event list" where
  "append_rows w spreadsheet_id sheet_name rows =
     (case get_sheets_service w of
        (Inl e, ev) \<Rightarrow> (api_except spreadsheet_id e, ev)
      | (Inr service, ev) \<Rightarrow>
          (case values_append w service spreadsheet_id sheet_name rows of
             Inl e \<Rightarrow> (api_except spreadsheet_id e, ev @ [ValuesAppend spreadsheet_id sheet_name])
           | Inr result \<Rightarrow>
               (AppendOk
                  (case result of None \<Rightarrow> []
                   | Some u \<Rightarrow> (case updatedRange u of None \<Rightarrow> [] | Some r \<Rightarrow> r))
                  (case result of None \<Rightarrow> 0
                   | Some u \<Rightarrow> (case updatedRows u of None \<Rightarrow> 0 | Some n \<Rightarrow> n)),
                ev @ [ValuesAppend spreadsheet_id sheet_name])))"

definition update_range ::
  "('c, 's) world \<Rightarrow> string \<Rightarrow> string \<Rightarrow> string \<Rightarrow> pyval \<Rightarrow> envelope \<times> event list" where
  "update_range w spreadsheet_id sheet_name range_notation vals =
     (case get_sheets_service w of
        (Inl e, ev) \<Rightarrow> (api_except spreadsheet_id e, ev)
      | (Inr service, ev) \<Rightarrow>
          (let range_str = sheet_name @ ''!'' @ range_notation
           in case values_update w service spreadsheet_id range_str vals of
                Inl e \<Rightarrow> (api_except spreadsheet_id e, ev @ [ValuesUpdate spreadsheet_id range_str])
              | Inr result \<Rightarrow>
                  (UpdateOk
                     (case updatedRange result of None \<Rightarrow> [] | Some r \<Rightarrow> r)
                     (case updatedRows result of None \<Rightarrow> 0 | Some n \<Rightarrow> n)
                     (case updatedCells result of None \<Rightarrow> 0 | Some n \<Rightarrow> n),
                   ev @ [ValuesUpdate spreadsheet_id range_str])))"

text \<open>
  The search loop of \<open>find_row\<close>, \<open>for idx, row in enumerate(values, start=1)\<close>, with
  \<open>idx\<close> the number of the row at the head of the list.
\<close>

fun find_value :: "string list list \<Rightarrow> string \<Rightarrow> nat \<Rightarrow> nat option" where
  "find_value [] v idx = None"
| "find_value (row # rest) v idx =
     (if row \<noteq> [] \<and> hd row = v then Some idx else find_value rest v (Suc idx))"

text \<open>
  \<open>find_row\<close>. A successful envelope without a \<open>data\<close> key, which \<open>read_sheet\<close> never
  returns, would raise \<open>KeyError\<close> inside the \<open>try\<close> and end in the last clause.
\<close>

definition find_row ::
  "('c, 's) world \<Rightarrow> string \<Rightarrow> string \<Rightarrow> string \<Rightarrow> string \<Rightarrow> string option
     \<Rightarrow> envelope \<times> event list" where
  "find_row w spreadsheet_id sheet_name column v range_notation =
     (let search_range = (if truthy range_notation then the range_notation
                          else column @ '':'' @ column)
      in case read_sheet w spreadsheet_id sheet_name (Some search_range) of
           (Failure msg, ev) \<Rightarrow> (Failure msg, ev)
         | (ReadOk vals n c, ev) \<Rightarrow> (FindOk (find_value vals v 1), ev)
         | (read_result, ev) \<Rightarrow>
             (Failure (''Unexpected error: '' @ [CHR 0x27] @ ''data'' @ [CHR 0x27]), ev))"

section \<open>The dispatcher\<close>

text \<open>
  The specification dictionary of \<open>sheets_from_spec\<close>, one optional field per recognised
  key with the type its documentation gives: \<open>None\<close> is a key that is not in the
  dictionary. \<open>has_key\<close> is \<open>key in spec\<close>, and \<open>quoted\<close> puts a name between
  apostrophes as the messages do.
\<close>

record spec =
  spec_spreadsheet_id :: "string option"
  spec_sheet_name :: "string option"
  spec_operation :: "string option"
  spec_values :: "pyval option"
  spec_rows :: "pyval option"
  spec_range_notation :: "string option"
  spec_column :: "string option"
  spec_value :: "string option"

definition has_key :: "spec \<Rightarrow> string \<Rightarrow> bool" where
  "has_key sp k =
     (if k = ''spreadsheet_id'' then spec_spreadsheet_id sp \<noteq> None
      else if k = ''sheet_name'' then spec_sheet_name sp \<noteq> None
      else if k = ''operation'' then spec_operation sp \<noteq> None
      else if k = ''values'' then spec_values sp \<noteq> None
      else if k = ''rows'' then spec_rows sp \<noteq> None
      else if k = ''range_notation'' then spec_range_notation sp \<noteq> None
      else if k = ''column'' then spec_column sp \<noteq> None
      else if k = ''value'' then spec_value sp \<noteq> None
      else False)"

definition quoted :: "string \<Rightarrow> string" where
  "quoted k = [CHR 0x27] @ k @ [CHR 0x27]"

definition sheets_from_spec :: "('c, 's) world \<Rightarrow> spec \<Rightarrow> envelope \<times> event list" where
  "sheets_from_spec w sp =
     (let required = [''spreadsheet_id'', ''sheet_name'', ''operation''];
          missing = filter (\<lambda>f. \<not> has_key sp f) required
      in if missing \<noteq> [] then (Failure (''Missing required fields: '' @ join '', '' missing), [])
         else
          (let spreadsheet_id = the (spec_spreadsheet_id sp);
               sheet_name = the (spec_sheet_name sp);
               operation = the (spec_operation sp);
               range_notation = spec_range_notation sp
           in if operation = ''read'' then read_sheet w spreadsheet_id sheet_name range_notation
              else if operation = ''read_dicts''
                then read_sheet_as_dicts w spreadsheet_id sheet_name range_notation
              else if operation = ''append'' then
                (if \<not> has_key sp ''values''
                 then (Failure (''Missing '' @ quoted ''values''
                                @ '' field for append operation''), [])
                 else append_row w spreadsheet_id sheet_name (the (spec_values sp)))
              else if operation = ''append_rows'' then
                (if \<not> has_key sp ''rows''
                 then (Failure (''Missing '' @ quoted ''rows''
                                @ '' field for append_rows operation''), [])
                 else append_rows w spreadsheet_id sheet_name (the (spec_rows sp)))
              else if operation = ''update'' then
                (if \<not> has_key sp ''range_notation''
                 then (Failure (''Missing '' @ quoted ''range_notation''
                                @ '' field for update operation''), [])
                 else if \<not> has_key sp ''values''
                 then (Failure (''Missing '' @ quoted ''values''
                                @ '' field for update operation''), [])
                 else update_range w spreadsheet_id sheet_name
                        (the (spec_range_notation sp)) (the (spec_values sp)))
              else if operation = ''find'' then
                (if \<not> has_key sp ''column''
                 then (Failure (''Missing '' @ quoted ''column''
                                @ '' field for find operation''), [])
                 else if \<not> has_key sp ''value''
                 then (Failure (''Missing '' @ quoted ''value''
                                @ '' field for find operation''), [])
                 else find_row w spreadsheet_id sheet_name
                        (the (spec_column sp)) (the (spec_value sp)) range_notation)
              else (Failure (''Unknown operation: '' @ operation), [])))"

section \<open>The project-tracker client\<close>





















section \<open>A test double for the outside world\<close>

text \<open>
  In the manner of the mocks of the repository's tests: the environment is an association
  list, every child process is looked up in a table (a command that is not in it is a missing
  binary), the text \<open>{}\<close> parses as the empty JSON object and no other text is JSON, no credential file exists, the
  read request answers \<open>get_result\<close> and the tracker answers every POST with status
  \<open>status\<close> and an empty JSON object.
\<close>

definition test_world ::
  "(string \<times> string) list \<Rightarrow> (string list \<times> proc_result) list
     \<Rightarrow> (exn + string list list option) \<Rightarrow> nat \<Rightarrow> (unit, unit) world" where
  "test_world env procs get_result status =
     \<lparr> getenv = map_of env,
       getuser = Inr ''user'',
       run = (\<lambda>cmd. case map_of procs cmd of None \<Rightarrow> FileNotFound | Some r \<Rightarrow> r),
       json_loads = (\<lambda>s. if s = ''{}'' then Inr (JObj [])
                         else Inl (JSONDecodeError ''Expecting value'')),
       from_service_account_info = (\<lambda>j. Inr ()),
       from_service_account_file = (\<lambda>p. Inl (FileNotFoundError p)),
       build = (\<lambda>c. Inr ()),
       values_get = (\<lambda>s spreadsheet_id range_str. get_result),
       values_append = (\<lambda>s spreadsheet_id range_str body. Inr None),
       values_update = (\<lambda>s spreadsheet_id range_str body.
          Inr \<lparr> updatedRange = None, updatedRows = None, updatedCells = None \<rparr>),
       requests_post = (\<lambda>url api_key payload.
          Inr \<lparr> status_code = status, text_of = [], json_of = Inr (JObj []) \<rparr>) \<rparr>"

section \<open>Properties of the string operations\<close>

lemma of_char_lower_char: "(of_char (lower_char c) :: nat) =
   (let n = (of_char c :: nat) in
    if (65 \<le> n \<and> n \<le> 90) \<or> (192 \<le> n \<and> n \<le> 222 \<and> n \<noteq> 215) then n + 32 else n)"
  by (auto simp add: lower_char_def Let_def of_char_of)

lemma lower_char_idem: "lower_char (lower_char c) = lower_char c"
proof -
  have "\<not> ((65 \<le> (of_char (lower_char c) :: nat) \<and> (of_char (lower_char c) :: nat) \<le> 90)
      \<or> (192 \<le> (of_char (lower_char c) :: nat) \<and> (of_char (lower_char c) :: nat) \<le> 222
          \<and> (of_char (lower_char c) :: nat) \<noteq> 215))"
    unfolding of_char_lower_char Let_def by auto
  then show ?thesis
    by (subst lower_char_def) (auto simp add: Let_def)
qed

lemma lower_idem: "lower (lower s) = lower s"
  by (simp add: lower_def lower_char_idem)

lemma is_space_lower_char: "is_space (lower_char c) = is_space c"
  unfolding is_space_def of_char_lower_char Let_def by auto

lemma dropWhile_lower: "dropWhile is_space (lower s) = lower (dropWhile is_space s)"
  by (induction s) (simp_all add: lower_def is_space_lower_char)

lemma rev_lower: "rev (lower s) = lower (rev s)"
  by (simp add: lower_def rev_map)

lemma strip_lower: "strip (lower s) = lower (strip s)"
  by (simp add: strip_def dropWhile_lower rev_lower)

lemma dropWhile_last:
  "dropWhile P xs \<noteq> [] \<Longrightarrow> last (dropWhile P xs) = last xs"
  by (induction xs) (auto split: if_splits)

lemma strip_idem: "strip (strip s) = strip s"
proof -
  define u where "u = dropWhile is_space s"
  define v where "v = dropWhile is_space (rev u)"
  have t: "strip s = rev v" by (simp add: strip_def u_def v_def)
  show ?thesis
  proof (cases "v = []")
    case True
    with t have e: "strip s = []" by simp
    show ?thesis unfolding e by (simp add: strip_def)
  next
    case False
    then have hv: "\<not> is_space (hd v)" unfolding v_def by (rule hd_dropWhile)
    from False have un: "u \<noteq> []" by (auto simp add: v_def)
    then have hu: "\<not> is_space (hd u)" unfolding u_def by (rule hd_dropWhile)
    have "last v = last (rev u)" using False unfolding v_def by (rule dropWhile_last)
    then have lv: "last v = hd u" using un by (simp add: last_rev)
    have "hd (rev v) = last v" using False by (simp add: hd_rev)
    then have a: "dropWhile is_space (rev v) = rev v"
      using hu lv by (simp add: dropWhile_eq_self_iff)
    have b: "dropWhile is_space v = v" using hv by (simp add: dropWhile_eq_self_iff)
    show ?thesis unfolding t by (simp add: strip_def a b)
  qed
qed

lemma split_on_nonempty: "split_on sep s \<noteq> []"
  by (induction s) (auto split: list.splits)

lemma join_split_on: "join [sep] (split_on sep s) = s"
proof (induction s)
  case Nil
  then show ?case by simp
next
  case (Cons c cs)
  obtain item items where e: "split_on sep cs = item # items"
    using split_on_nonempty [of sep cs] by (cases "split_on sep cs") auto
  show ?case
  proof (cases "c = sep")
    case True
    then show ?thesis using Cons e by simp
  next
    case False
    then show ?thesis using Cons e by (cases items) simp_all
  qed
qed

lemma split_on_no_sep: "item \<in> set (split_on sep s) \<Longrightarrow> sep \<notin> set item"
  by (induction s arbitrary: item) (auto split: if_splits list.splits)

lemma parse_example: "parse_sources ''Env, KEYCHAIN , ,1Password'' = [''env'', ''keychain'', ''1password'']"
  by code_simp


lemma parse_sources_items:
  assumes "x \<in> set (parse_sources s)"
  shows "x \<noteq> [] \<and> strip x = x \<and> lower x = x"
proof -
  from assms obtain item where i: "strip item \<noteq> []" and x: "x = lower (strip item)"
    by (auto simp add: parse_sources_def)
  have "strip x = x" unfolding x by (simp add: strip_lower strip_idem)
  moreover have "lower x = x" unfolding x by (rule lower_idem)
  moreover have "x \<noteq> []" using i unfolding x by (simp add: lower_def)
  ultimately show ?thesis by simp
qed

text \<open>
  Claim C4. The override string is split at the commas; every item is stripped and
  lower-cased and the items that are blank after stripping are dropped, so every key of the
  parsed order is non-empty, has no white space at either end and is in lower case. The string
  \<open>"Env, KEYCHAIN , ,1Password"\<close> parses to \<open>["env", "keychain", "1password"]\<close>. A non-empty
  override replaces the default order, and an absent or empty one leaves the default order
  \<open>json, env, keychain, 1password\<close>.
\<close>

theorem override_order_parsing:
  "join '','' (split_on CHR '','' s) = s
   \<and> (\<forall>item \<in> set (split_on CHR '','' s). CHR '','' \<notin> set item)
   \<and> parse_sources s =
       map (\<lambda>item. lower (strip item)) (filter (\<lambda>item. strip item \<noteq> []) (split_on CHR '','' s))
   \<and> (\<forall>x \<in> set (parse_sources s). x \<noteq> [] \<and> strip x = x \<and> lower x = x)
   \<and> parse_sources ''Env, KEYCHAIN , ,1Password'' = [''env'', ''keychain'', ''1password'']
   \<and> (getenv w ''GOOGLE_SHEETS_CREDENTIAL_SOURCES'' = Some s \<and> s \<noteq> []
        \<longrightarrow> preferred_sources w = parse_sources s)
   \<and> (getenv w ''GOOGLE_SHEETS_CREDENTIAL_SOURCES'' = None
        \<or> getenv w ''GOOGLE_SHEETS_CREDENTIAL_SOURCES'' = Some []
        \<longrightarrow> preferred_sources w = [''json'', ''env'', ''keychain'', ''1password''])"
proof -
  have a: "join '','' (split_on CHR '','' s) = s" by (rule join_split_on)
  have b: "\<forall>item \<in> set (split_on CHR '','' s). CHR '','' \<notin> set item"
    using split_on_no_sep by blast
  have c: "\<forall>x \<in> set (parse_sources s). x \<noteq> [] \<and> strip x = x \<and> lower x = x"
    using parse_sources_items by blast
  have d: "parse_sources ''Env, KEYCHAIN , ,1Password'' = [''env'', ''keychain'', ''1password'']"
    by (rule parse_example)
  have e: "getenv w ''GOOGLE_SHEETS_CREDENTIAL_SOURCES'' = Some s \<and> s \<noteq> []
        \<longrightarrow> preferred_sources w = parse_sources s"
    by (simp add: preferred_sources_def)
  have f: "getenv w ''GOOGLE_SHEETS_CREDENTIAL_SOURCES'' = None
        \<or> getenv w ''GOOGLE_SHEETS_CREDENTIAL_SOURCES'' = Some []
        \<longrightarrow> preferred_sources w = [''json'', ''env'', ''keychain'', ''1password'']"
    by (auto simp add: preferred_sources_def)
  have g: "parse_sources s =
       map (\<lambda>item. lower (strip item)) (filter (\<lambda>item. strip item \<noteq> []) (split_on CHR '','' s))"
    by (simp add: parse_sources_def)
  show ?thesis by (rule conjI a b g c d e f)+
qed

text \<open>The override of the example, read through the environment of a concrete world.\<close>

lemma tw_getenv: "getenv (test_world env procs g st) = map_of env"
  by (simp add: test_world_def)

theorem override_order_parsing_witness:
  "preferred_sources
     (test_world [(''GOOGLE_SHEETS_CREDENTIAL_SOURCES'', ''Env, KEYCHAIN , ,1Password'')]
        [] (Inr None) 200)
   = [''env'', ''keychain'', ''1password'']"
proof -
  let ?s = "''Env, KEYCHAIN , ,1Password''"
  let ?w = "test_world [(''GOOGLE_SHEETS_CREDENTIAL_SOURCES'', ?s)] [] (Inr None) 200"
  note T = override_order_parsing [of ?s ?w]
  have g: "getenv ?w ''GOOGLE_SHEETS_CREDENTIAL_SOURCES'' = Some ?s \<and> ?s \<noteq> []"
    by (simp add: tw_getenv)
  have e: "getenv ?w ''GOOGLE_SHEETS_CREDENTIAL_SOURCES'' = Some ?s \<and> ?s \<noteq> []
        \<longrightarrow> preferred_sources ?w = parse_sources ?s"
    using T by (elim conjE)
  have d: "parse_sources ?s = [''env'', ''keychain'', ''1password'']"
    using T by (elim conjE)
  from e g have "preferred_sources ?w = parse_sources ?s" by (rule mp)
  then show ?thesis unfolding d .
qed

section \<open>Properties of the resolution chain\<close>






text \<open>
  With only the environment variable of the spreadsheet client set, the second key of the
  default order wins and the two keys after it are never tried; with only the tracker's
  variable set, its first key wins.
\<close>

lemma strip_braces: "strip ''{}'' = ''{}''"
  by code_simp






















section \<open>Properties of the post-processing of a resolved secret\<close>









section \<open>Properties of the spreadsheet operations\<close>

lemma update_fresh: "k \<notin> fst ` set al \<Longrightarrow> AList.update k v al = al @ [(k, v)]"
  by (induction al) auto

lemma fold_update_distinct:
  "distinct (map fst kvs) \<Longrightarrow> fst ` set kvs \<inter> fst ` set acc = {}
     \<Longrightarrow> fold (\<lambda>(k, v) d. AList.update k v d) kvs acc = acc @ kvs"
proof (induction kvs arbitrary: acc)
  case Nil
  then show ?case by simp
next
  case (Cons p kvs)
  obtain k v where p: "p = (k, v)" by (cases p)
  from Cons.prems p have f: "k \<notin> fst ` set acc" by auto
  from Cons.prems p have d: "distinct (map fst kvs)"
    and i: "fst ` set kvs \<inter> fst ` set (acc @ [(k, v)]) = {}" by auto
  show ?case using Cons.IH [OF d i] by (simp add: p update_fresh [OF f])
qed

lemma fold_update_keys:
  "fst ` set (fold (\<lambda>(k, v) d. AList.update k v d) kvs acc) = fst ` set acc \<union> fst ` set kvs"
proof (induction kvs arbitrary: acc)
  case Nil
  then show ?case by simp
next
  case (Cons p kvs)
  obtain k v where p: "p = (k, v)" by (cases p)
  show ?case by (simp add: p Cons.IH dom_update)
qed

lemma fold_update_distinct_keys:
  "distinct (map fst acc)
     \<Longrightarrow> distinct (map fst (fold (\<lambda>(k, v) d. AList.update k v d) kvs acc))"
proof (induction kvs arbitrary: acc)
  case Nil
  then show ?case by simp
next
  case (Cons p kvs)
  obtain k v where p: "p = (k, v)" by (cases p)
  show ?case using Cons.IH [OF distinct_update [OF Cons.prems, of k v]] by (simp add: p)
qed

lemma zip_padded_keys:
  "map fst (zip headers (row @ replicate (length headers - length row) c)) = headers"
  by (simp add: map_fst_zip_take)

lemma row_dict_keys: "fst ` set (row_dict headers row) = set headers"
proof -
  have "fst ` set (zip headers (row @ replicate (length headers - length row) []))
          = set (map fst (zip headers (row @ replicate (length headers - length row) [])))"
    by simp
  also have "\<dots> = set headers" by (simp only: zip_padded_keys)
  finally show ?thesis by (simp add: row_dict_def Let_def fold_update_keys)
qed

lemma row_dict_distinct_keys: "distinct (map fst (row_dict headers row))"
  by (simp add: row_dict_def Let_def fold_update_distinct_keys)

lemma row_dict_distinct:
  assumes "distinct headers"
  shows "row_dict headers row = zip headers (row @ replicate (length headers - length row) [])"
proof -
  have "distinct (map fst (zip headers (row @ replicate (length headers - length row) [])))"
    using assms by (simp only: zip_padded_keys)
  then show ?thesis by (simp add: row_dict_def Let_def fold_update_distinct)
qed

lemma map_of_zip_nth_le:
  "distinct xs \<Longrightarrow> i < length xs \<Longrightarrow> i < length ys
     \<Longrightarrow> map_of (zip xs ys) (xs ! i) = Some (ys ! i)"
proof (induction xs arbitrary: ys i)
  case Nil
  then show ?case by simp
next
  case (Cons x xs)
  then obtain y ys' where ys: "ys = y # ys'" by (cases ys) auto
  show ?case
  proof (cases i)
    case 0
    then show ?thesis by (simp add: ys)
  next
    case (Suc j)
    with Cons.prems ys have j: "j < length xs" "j < length ys'" and d: "distinct xs"
      and n: "xs ! j \<noteq> x" by auto
    show ?thesis using Cons.IH [OF d j] n by (simp add: ys Suc)
  qed
qed

lemma tw_service:
  "get_sheets_service (test_world [(''GOOGLE_SHEETS_SERVICE_ACCOUNT'', ''{}'')] procs g st)
     = (Inr (), [Retrieve ''json'', Retrieve ''env'', JsonLoads ''{}'', FromInfo, Build])"
proof -
  let ?w = "test_world [(''GOOGLE_SHEETS_SERVICE_ACCOUNT'', ''{}'')] procs g st"
  have ge: "getenv ?w = map_of [(''GOOGLE_SHEETS_SERVICE_ACCOUNT'', ''{}'')]"
    by (simp add: test_world_def)
  have ps: "preferred_sources ?w = [''json'', ''env'', ''keychain'', ''1password'']"
    by (simp add: preferred_sources_def ge)
  have e: "from_env ?w = Inr (Some ''{}'')" by (simp add: from_env_def ge strip_braces)
  have j: "from_json_env ?w = Inr None" by (simp add: from_json_env_def ge)
  have t: "try_sources CREDENTIAL_SOURCES ?w [''json'', ''env'', ''keychain'', ''1password''] [] []
             = (Inr (Some ''{}''), [''json''], [''json'', ''env''])"
    by (simp add: CREDENTIAL_SOURCES_def e j truthy_def)
  have l: "load_credentials ?w ''{}'' = (Inr (), [JsonLoads ''{}'', FromInfo])"
    by (simp add: load_credentials_def startswith_def parse_or_load_def test_world_def)
  have c: "get_service_account_credentials ?w
             = (Inr (), [Retrieve ''json'', Retrieve ''env'', JsonLoads ''{}'', FromInfo])"
    unfolding get_service_account_credentials_def ps t by (simp add: truthy_def l)
  have b: "build ?w () = Inr ()" by (simp add: test_world_def)
  show ?thesis unfolding get_sheets_service_def c by (simp add: b)
qed

lemma tw_read_sheet:
  "read_sheet (test_world [(''GOOGLE_SHEETS_SERVICE_ACCOUNT'', ''{}'')] procs (Inr (Some vals)) st)
     spreadsheet_id sheet_name None
     = (ReadOk vals (length vals) (if vals \<noteq> [] then length (hd vals) else 0),
        [Retrieve ''json'', Retrieve ''env'', JsonLoads ''{}'', FromInfo, Build,
         ValuesGet spreadsheet_id sheet_name])"
proof -
  let ?w = "test_world [(''GOOGLE_SHEETS_SERVICE_ACCOUNT'', ''{}'')] procs (Inr (Some vals)) st"
  have v: "values_get ?w () spreadsheet_id sheet_name = Inr (Some vals)"
    by (simp add: test_world_def)
  show ?thesis unfolding read_sheet_def tw_service by (simp add: truthy_def v)
qed

text \<open>
  Claim C7. When \<open>read_sheet\<close> succeeds with a grid \<open>vals\<close> that is not empty,
  \<open>read_sheet_as_dicts\<close> succeeds, with no further effect, with the first row as
  \<open>headers\<close>, the number of the rows after the first as \<open>rows\<close>, and one dictionary for each
  of these rows, in their order. The keys of each dictionary are the headers. Where the
  headers are pairwise distinct the dictionary pairs the headers, in their order, with the
  cells of the row followed by as many empty strings as the row is shorter than the header
  row: the header at position \<open>i\<close> has the cell at position \<open>i\<close>, and the empty string
  where the row has no such cell.
\<close>

theorem structured_rows:
  "(read_sheet w spreadsheet_id sheet_name range_notation = (ReadOk vals n c, ev) \<and> vals \<noteq> []
      \<longrightarrow> read_sheet_as_dicts w spreadsheet_id sheet_name range_notation
            = (DictsOk (map (row_dict (hd vals)) (tl vals)) (length vals - 1) (hd vals), ev)
          \<and> success (fst (read_sheet_as_dicts w spreadsheet_id sheet_name range_notation)))
   \<and> fst ` set (row_dict headers row) = set headers
   \<and> (distinct headers \<longrightarrow>
        row_dict headers row = zip headers (row @ replicate (length headers - length row) [])
        \<and> (\<forall>i < length headers.
              map_of (row_dict headers row) (headers ! i)
                = Some (if i < length row then row ! i else [])))"
proof (intro conjI impI allI)
  assume r: "read_sheet w spreadsheet_id sheet_name range_notation = (ReadOk vals n c, ev)
               \<and> vals \<noteq> []"
  then show d: "read_sheet_as_dicts w spreadsheet_id sheet_name range_notation
            = (DictsOk (map (row_dict (hd vals)) (tl vals)) (length vals - 1) (hd vals), ev)"
    by (simp add: read_sheet_as_dicts_def Let_def)
  show "success (fst (read_sheet_as_dicts w spreadsheet_id sheet_name range_notation))"
    unfolding d by simp
next
  show "fst ` set (row_dict headers row) = set headers" by (rule row_dict_keys)
next
  assume "distinct headers"
  then show "row_dict headers row
               = zip headers (row @ replicate (length headers - length row) [])"
    by (rule row_dict_distinct)
next
  fix i
  assume d: "distinct headers" and i: "i < length headers"
  let ?p = "row @ replicate (length headers - length row) []"
  have l: "i < length ?p" using i by simp
  have "map_of (zip headers ?p) (headers ! i) = Some (?p ! i)"
    using d i l by (rule map_of_zip_nth_le)
  also have "?p ! i = (if i < length row then row ! i else [])"
    using i by (simp add: nth_append)
  finally show "map_of (row_dict headers row) (headers ! i)
                  = Some (if i < length row then row ! i else [])"
    by (simp add: row_dict_distinct [OF d])
qed

text \<open>
  The grid of the specification, read through the test double with the credentials in the
  environment variable; and a row that is shorter than the header row.
\<close>

theorem structured_rows_witness:
  "read_sheet_as_dicts
     (test_world [(''GOOGLE_SHEETS_SERVICE_ACCOUNT'', ''{}'')] []
        (Inr (Some [[''H1'', ''H2''], [''v1'', ''v2'']])) 200) ''S1'' ''Sheet1'' None
     = (DictsOk [[(''H1'', ''v1''), (''H2'', ''v2'')]] 1 [''H1'', ''H2''],
        [Retrieve ''json'', Retrieve ''env'', JsonLoads ''{}'', FromInfo, Build,
         ValuesGet ''S1'' ''Sheet1''])
   \<and> row_dict [''H1'', ''H2''] [''v1''] = [(''H1'', ''v1''), (''H2'', [])]
   \<and> map_of (row_dict [''H1'', ''H2''] [''v1'']) ''H2'' = Some []"
proof (intro conjI)
  let ?w = "test_world [(''GOOGLE_SHEETS_SERVICE_ACCOUNT'', ''{}'')] []
        (Inr (Some [[''H1'', ''H2''], [''v1'', ''v2'']])) 200"
  let ?ev = "[Retrieve ''json'', Retrieve ''env'', JsonLoads ''{}'', FromInfo, Build,
         ValuesGet ''S1'' ''Sheet1'']"
  have h: "read_sheet ?w ''S1'' ''Sheet1'' None
             = (ReadOk [[''H1'', ''H2''], [''v1'', ''v2'']] 2 2, ?ev)
           \<and> [[''H1'', ''H2''], [''v1'', ''v2'']] \<noteq> []"
    by (simp add: tw_read_sheet)
  have dh: "distinct [''H1'', ''H2'']" by simp
  note R = structured_rows [where w = ?w and headers = "[''H1'', ''H2'']"
      and row = "[''v1'', ''v2'']", THEN conjunct1, THEN mp, OF h, THEN conjunct1]
  note D = structured_rows [where headers = "[''H1'', ''H2'']" and row = "[''v1'', ''v2'']",
      THEN conjunct2, THEN conjunct2, THEN mp, OF dh, THEN conjunct1]
  show "read_sheet_as_dicts ?w ''S1'' ''Sheet1'' None
     = (DictsOk [[(''H1'', ''v1''), (''H2'', ''v2'')]] 1 [''H1'', ''H2''], ?ev)"
    unfolding R by (simp add: D)
  note S = structured_rows [where headers = "[''H1'', ''H2'']" and row = "[''v1'']",
      THEN conjunct2, THEN conjunct2, THEN mp, OF dh]
  show "row_dict [''H1'', ''H2''] [''v1''] = [(''H1'', ''v1''), (''H2'', [])]"
    using S [THEN conjunct1] by simp
  show "map_of (row_dict [''H1'', ''H2''] [''v1'']) ''H2'' = Some []"
    using S [THEN conjunct2, THEN spec, of 1] by simp
qed

lemma find_value_takeWhile:
  "find_value vals v idx =
     (if \<exists>row \<in> set vals. row \<noteq> [] \<and> hd row = v
      then Some (idx + length (takeWhile (\<lambda>row. \<not> (row \<noteq> [] \<and> hd row = v)) vals))
      else None)"
  by (induction vals arbitrary: idx) auto

lemma find_value_None:
  "find_value vals v idx = None \<longleftrightarrow> (\<forall>row \<in> set vals. row = [] \<or> hd row \<noteq> v)"
  by (auto simp add: find_value_takeWhile)

lemma find_value_Some:
  assumes "find_value vals v (Suc 0) = Some N"
  shows "Suc 0 \<le> N \<and> N \<le> length vals \<and> vals ! (N - 1) \<noteq> [] \<and> hd (vals ! (N - 1)) = v
         \<and> (\<forall>j < N - 1. vals ! j = [] \<or> hd (vals ! j) \<noteq> v)"
proof -
  let ?P = "\<lambda>row. \<not> (row \<noteq> [] \<and> hd row = v)"
  let ?k = "length (takeWhile ?P vals)"
  from assms have e: "\<exists>row \<in> set vals. row \<noteq> [] \<and> hd row = v" and N: "N = Suc ?k"
    by (auto simp add: find_value_takeWhile split: if_splits)
  from e have "takeWhile ?P vals \<noteq> vals"
    by (metis (mono_tags, lifting) set_takeWhileD)
  then have "?k \<noteq> length vals" by (metis takeWhile_eq_take take_all order_refl)
  moreover have "?k \<le> length vals" by (rule length_takeWhile_le)
  ultimately have lt: "?k < length vals" by simp
  have m: "\<not> ?P (vals ! ?k)" using lt by (rule nth_length_takeWhile)
  have b: "?P (vals ! j)" if "j < ?k" for j
  proof -
    have "takeWhile ?P vals ! j \<in> set (takeWhile ?P vals)" using that by simp
    then have "?P (takeWhile ?P vals ! j)" by (rule set_takeWhileD [THEN conjunct2])
    then show ?thesis using that by (simp add: takeWhile_nth)
  qed
  show ?thesis using lt m b by (simp add: N)
qed

lemma tw_read_sheet_range:
  assumes "r \<noteq> []"
  shows "read_sheet (test_world [(''GOOGLE_SHEETS_SERVICE_ACCOUNT'', ''{}'')] procs
                       (Inr (Some vals)) st) spreadsheet_id sheet_name (Some r)
     = (ReadOk vals (length vals) (if vals \<noteq> [] then length (hd vals) else 0),
        [Retrieve ''json'', Retrieve ''env'', JsonLoads ''{}'', FromInfo, Build,
         ValuesGet spreadsheet_id (sheet_name @ ''!'' @ r)])"
proof -
  let ?w = "test_world [(''GOOGLE_SHEETS_SERVICE_ACCOUNT'', ''{}'')] procs (Inr (Some vals)) st"
  have v: "values_get ?w () spreadsheet_id (sheet_name @ ''!'' @ r) = Inr (Some vals)"
    by (simp add: test_world_def)
  show ?thesis unfolding read_sheet_def tw_service using assms v by (simp add: truthy_def)
qed

text \<open>
  Claim C8. \<open>find_row\<close> reads the range \<open>range_notation\<close>, or the column
  \<open>column:column\<close> when none is given, and when this read succeeds with the rows \<open>vals\<close> it
  succeeds with \<open>row\<close> equal to \<open>find_value vals v 1\<close>, with no further effect. That
  value is the number, counted from 1, of the first row that is not empty and whose first
  cell is equal to \<open>v\<close>: the row of this number is such a row and no row before it is, and
  it is \<open>None\<close> exactly when no row is such a row. Equality of strings is equality of
  their characters, so the letters of a cell must agree with those of \<open>v\<close> in case.
\<close>

theorem find_first_match:
  "(read_sheet w spreadsheet_id sheet_name
      (Some (if truthy range_notation then the range_notation else column @ '':'' @ column))
      = (ReadOk vals n c, ev)
     \<longrightarrow> find_row w spreadsheet_id sheet_name column v range_notation
           = (FindOk (find_value vals v 1), ev))
   \<and> (find_value vals v 1 = Some N \<longrightarrow>
        1 \<le> N \<and> N \<le> length vals \<and> vals ! (N - 1) \<noteq> [] \<and> hd (vals ! (N - 1)) = v
        \<and> (\<forall>j < N - 1. vals ! j = [] \<or> hd (vals ! j) \<noteq> v))
   \<and> (find_value vals v 1 = None \<longleftrightarrow> (\<forall>row \<in> set vals. row = [] \<or> hd row \<noteq> v))
   \<and> find_value vals v 1 =
        (if \<exists>row \<in> set vals. row \<noteq> [] \<and> hd row = v
         then Some (1 + length (takeWhile (\<lambda>row. \<not> (row \<noteq> [] \<and> hd row = v)) vals))
         else None)"
proof (intro conjI impI)
  show "find_row w spreadsheet_id sheet_name column v range_notation
           = (FindOk (find_value vals v 1), ev)"
    if "read_sheet w spreadsheet_id sheet_name
      (Some (if truthy range_notation then the range_notation else column @ '':'' @ column))
      = (ReadOk vals n c, ev)"
    using that by (simp add: find_row_def Let_def)
  assume s: "find_value vals v 1 = Some N"
  note F = find_value_Some [OF s [unfolded One_nat_def]]
  show "1 \<le> N" using F by simp
  show "N \<le> length vals" using F by simp
  show "vals ! (N - 1) \<noteq> []" using F by simp
  show "hd (vals ! (N - 1)) = v" using F by simp
  show "\<forall>j < N - 1. vals ! j = [] \<or> hd (vals ! j) \<noteq> v" using F by simp
next
  show "find_value vals v 1 = None \<longleftrightarrow> (\<forall>row \<in> set vals. row = [] \<or> hd row \<noteq> v)"
    by (rule find_value_None)
  show "find_value vals v 1 =
        (if \<exists>row \<in> set vals. row \<noteq> [] \<and> hd row = v
         then Some (1 + length (takeWhile (\<lambda>row. \<not> (row \<noteq> [] \<and> hd row = v)) vals))
         else None)"
    by (rule find_value_takeWhile)
qed

text \<open>
  The rows of the specification, read through the test double: \<open>Acme Corp\<close> is found in
  row 3, and neither \<open>acme corp\<close> nor \<open>Nobody\<close> is found.
\<close>

theorem find_first_match_witness:
  "find_row
     (test_world [(''GOOGLE_SHEETS_SERVICE_ACCOUNT'', ''{}'')] []
        (Inr (Some [[''Company A''], [''Company B''], [''Acme Corp'']])) 200)
     ''S1'' ''Sheet1'' ''A'' ''Acme Corp'' None
     = (FindOk (Some 3),
        [Retrieve ''json'', Retrieve ''env'', JsonLoads ''{}'', FromInfo, Build,
         ValuesGet ''S1'' ''Sheet1!A:A''])
   \<and> find_row
     (test_world [(''GOOGLE_SHEETS_SERVICE_ACCOUNT'', ''{}'')] []
        (Inr (Some [[''Company A''], [''Company B''], [''Acme Corp'']])) 200)
     ''S1'' ''Sheet1'' ''A'' ''acme corp'' None
     = (FindOk None,
        [Retrieve ''json'', Retrieve ''env'', JsonLoads ''{}'', FromInfo, Build,
         ValuesGet ''S1'' ''Sheet1!A:A''])
   \<and> find_value [[''Company A''], [''Company B''], [''Acme Corp'']] ''Nobody'' 1 = None"
proof (intro conjI)
  let ?vals = "[[''Company A''], [''Company B''], [''Acme Corp'']]"
  let ?w = "test_world [(''GOOGLE_SHEETS_SERVICE_ACCOUNT'', ''{}'')] [] (Inr (Some ?vals)) 200"
  let ?ev = "[Retrieve ''json'', Retrieve ''env'', JsonLoads ''{}'', FromInfo, Build,
         ValuesGet ''S1'' ''Sheet1!A:A'']"
  have r: "read_sheet ?w ''S1'' ''Sheet1'' (Some ''A:A'') = (ReadOk ?vals 3 1, ?ev)"
    by (simp add: tw_read_sheet_range)
  have h: "read_sheet ?w ''S1'' ''Sheet1''
             (Some (if truthy None then the None else ''A'' @ '':'' @ ''A''))
             = (ReadOk ?vals 3 1, ?ev)"
    using r by (simp add: truthy_def)
  have f: "find_value ?vals ''Acme Corp'' 1 = Some 3" by simp
  have g: "find_value ?vals ''acme corp'' 1 = None" by simp
  note A = find_first_match [where w = ?w and v = "''Acme Corp''" and range_notation = None,
      THEN conjunct1, THEN mp, OF h]
  note B = find_first_match [where w = ?w and v = "''acme corp''" and range_notation = None,
      THEN conjunct1, THEN mp, OF h]
  show "find_row ?w ''S1'' ''Sheet1'' ''A'' ''Acme Corp'' None = (FindOk (Some 3), ?ev)"
    unfolding A f ..
  show "find_row ?w ''S1'' ''Sheet1'' ''A'' ''acme corp'' None = (FindOk None, ?ev)"
    unfolding B g ..
  have n: "\<forall>row \<in> set ?vals. row = [] \<or> hd row \<noteq> ''Nobody''" by simp
  show "find_value ?vals ''Nobody'' 1 = None"
    using find_first_match [where vals = ?vals and v = "''Nobody''",
        THEN conjunct2, THEN conjunct2, THEN conjunct1, THEN iffD2, OF n] .
qed

lemma zip_take_length: "zip xs (take (length xs) ys) = zip xs ys"
proof (induction xs arbitrary: ys)
  case Nil
  then show ?case by simp
next
  case (Cons x xs)
  then show ?case by (cases ys) simp_all
qed

lemma row_dict_take: "row_dict headers row = row_dict headers (take (length headers) row)"
proof (cases "length row \<le> length headers")
  case True
  then show ?thesis by simp
next
  case False
  then have l: "length headers - length row = 0"
    and m: "length headers - length (take (length headers) row) = 0" by simp_all
  show ?thesis unfolding row_dict_def Let_def l m by (simp add: zip_take_length)
qed

text \<open>
  Claim C10. A row and the row cut down to the width of the header row give the same
  dictionary, so the cells of a row beyond the last header are dropped. Every dictionary has
  each header as a key, and no key twice; where the headers are pairwise distinct its keys
  are the headers in their order, one entry for each, and a row longer than the header row
  gives the headers paired with its first cells. When \<open>read_sheet\<close> succeeds with a grid
  that is not empty, \<open>read_sheet_as_dicts\<close> succeeds whatever the lengths of the rows are,
  with the dictionaries of the rows cut down and with no effect beyond those of the read.
\<close>

theorem oversized_rows_truncated:
  "row_dict headers row = row_dict headers (take (length headers) row)
   \<and> distinct (map fst (row_dict headers row))
   \<and> set (map fst (row_dict headers row)) = set headers
   \<and> (distinct headers \<longrightarrow>
        map fst (row_dict headers row) = headers
        \<and> length (row_dict headers row) = length headers)
   \<and> (distinct headers \<and> length headers < length row \<longrightarrow>
        row_dict headers row = zip headers (take (length headers) row))
   \<and> (read_sheet w spreadsheet_id sheet_name range_notation = (ReadOk vals n c, ev) \<and> vals \<noteq> []
        \<longrightarrow> read_sheet_as_dicts w spreadsheet_id sheet_name range_notation
              = (DictsOk (map (\<lambda>row. row_dict (hd vals) (take (length (hd vals)) row)) (tl vals))
                   (length (tl vals)) (hd vals), ev))"
proof (intro conjI impI)
  show "row_dict headers row = row_dict headers (take (length headers) row)"
    by (rule row_dict_take)
  show "distinct (map fst (row_dict headers row))" by (rule row_dict_distinct_keys)
  show "set (map fst (row_dict headers row)) = set headers"
    using row_dict_keys [of headers row] by simp
  show k: "map fst (row_dict headers row) = headers" if "distinct headers"
    by (simp only: row_dict_distinct [OF that] zip_padded_keys)
  show "length (row_dict headers row) = length headers" if "distinct headers"
    using k [OF that] by (metis length_map)
  show "row_dict headers row = zip headers (take (length headers) row)"
    if "distinct headers \<and> length headers < length row"
    using that by (simp add: row_dict_distinct zip_take_length)
  show "read_sheet_as_dicts w spreadsheet_id sheet_name range_notation
              = (DictsOk (map (\<lambda>row. row_dict (hd vals) (take (length (hd vals)) row)) (tl vals))
                   (length (tl vals)) (hd vals), ev)"
    if "read_sheet w spreadsheet_id sheet_name range_notation = (ReadOk vals n c, ev) \<and> vals \<noteq> []"
    using that row_dict_take [of "hd vals"]
    by (simp add: read_sheet_as_dicts_def Let_def)
qed

text \<open>
  A grid with one header and a row of two cells, read through the test double: the second
  cell is dropped and the envelope is a success.
\<close>

theorem oversized_rows_truncated_witness:
  "read_sheet_as_dicts
     (test_world [(''GOOGLE_SHEETS_SERVICE_ACCOUNT'', ''{}'')] []
        (Inr (Some [[''H1''], [''v1'', ''extra'']])) 200) ''S1'' ''Sheet1'' None
     = (DictsOk [[(''H1'', ''v1'')]] 1 [''H1''],
        [Retrieve ''json'', Retrieve ''env'', JsonLoads ''{}'', FromInfo, Build,
         ValuesGet ''S1'' ''Sheet1''])
   \<and> row_dict [''H1''] [''v1'', ''extra''] = [(''H1'', ''v1'')]"
proof (intro conjI)
  let ?w = "test_world [(''GOOGLE_SHEETS_SERVICE_ACCOUNT'', ''{}'')] []
        (Inr (Some [[''H1''], [''v1'', ''extra'']])) 200"
  let ?ev = "[Retrieve ''json'', Retrieve ''env'', JsonLoads ''{}'', FromInfo, Build,
         ValuesGet ''S1'' ''Sheet1'']"
  have h: "read_sheet ?w ''S1'' ''Sheet1'' None = (ReadOk [[''H1''], [''v1'', ''extra'']] 2 1, ?ev)
           \<and> [[''H1''], [''v1'', ''extra'']] \<noteq> []"
    by (simp add: tw_read_sheet)
  have d: "distinct [''H1''] \<and> length [''H1''] < length [''v1'', ''extra'']" by simp
  note T = oversized_rows_truncated [where headers = "[''H1'']" and row = "[''v1'', ''extra'']",
      THEN conjunct2, THEN conjunct2, THEN conjunct2, THEN conjunct2, THEN conjunct1,
      THEN mp, OF d]
  show t: "row_dict [''H1''] [''v1'', ''extra''] = [(''H1'', ''v1'')]"
    using T by simp
  note E = oversized_rows_truncated [where headers = "[''H1'']" and row = "[''v1'', ''extra'']",
      THEN conjunct1]
  note R = oversized_rows_truncated [where w = ?w, THEN conjunct2, THEN conjunct2,
      THEN conjunct2, THEN conjunct2, THEN conjunct2, THEN mp, OF h]
  show "read_sheet_as_dicts ?w ''S1'' ''Sheet1'' None
          = (DictsOk [[(''H1'', ''v1'')]] 1 [''H1''], ?ev)"
    unfolding R using E t by simp
qed

section \<open>Properties of the dispatcher\<close>

lemma has_key_fields:
  "has_key sp ''spreadsheet_id'' = (spec_spreadsheet_id sp \<noteq> None)"
  "has_key sp ''sheet_name'' = (spec_sheet_name sp \<noteq> None)"
  "has_key sp ''operation'' = (spec_operation sp \<noteq> None)"
  "has_key sp ''values'' = (spec_values sp \<noteq> None)"
  "has_key sp ''rows'' = (spec_rows sp \<noteq> None)"
  "has_key sp ''range_notation'' = (spec_range_notation sp \<noteq> None)"
  "has_key sp ''column'' = (spec_column sp \<noteq> None)"
  "has_key sp ''value'' = (spec_value sp \<noteq> None)"
  by (simp_all add: has_key_def)

lemma sheets_from_spec_missing:
  assumes "\<not> has_key sp ''spreadsheet_id'' \<or> \<not> has_key sp ''sheet_name''
             \<or> \<not> has_key sp ''operation''"
  shows "sheets_from_spec w sp
           = (Failure (''Missing required fields: ''
                @ join '', '' (filter (\<lambda>f. \<not> has_key sp f)
                                 [''spreadsheet_id'', ''sheet_name'', ''operation''])), [])"
proof -
  have "filter (\<lambda>f. \<not> has_key sp f) [''spreadsheet_id'', ''sheet_name'', ''operation''] \<noteq> []"
    using assms by (auto simp add: filter_empty_conv)
  then show ?thesis unfolding sheets_from_spec_def Let_def by (rule if_P)
qed

lemma sheets_from_spec_routed:
  assumes "has_key sp ''spreadsheet_id''" "has_key sp ''sheet_name''"
    and "spec_operation sp = Some operation"
  shows "sheets_from_spec w sp =
     (let spreadsheet_id = the (spec_spreadsheet_id sp);
          sheet_name = the (spec_sheet_name sp);
          range_notation = spec_range_notation sp
      in if operation = ''read'' then read_sheet w spreadsheet_id sheet_name range_notation
         else if operation = ''read_dicts''
           then read_sheet_as_dicts w spreadsheet_id sheet_name range_notation
         else if operation = ''append'' then
           (if \<not> has_key sp ''values''
            then (Failure (''Missing '' @ quoted ''values''
                           @ '' field for append operation''), [])
            else append_row w spreadsheet_id sheet_name (the (spec_values sp)))
         else if operation = ''append_rows'' then
           (if \<not> has_key sp ''rows''
            then (Failure (''Missing '' @ quoted ''rows''
                           @ '' field for append_rows operation''), [])
            else append_rows w spreadsheet_id sheet_name (the (spec_rows sp)))
         else if operation = ''update'' then
           (if \<not> has_key sp ''range_notation''
            then (Failure (''Missing '' @ quoted ''range_notation''
                           @ '' field for update operation''), [])
            else if \<not> has_key sp ''values''
            then (Failure (''Missing '' @ quoted ''values''
                           @ '' field for update operation''), [])
            else update_range w spreadsheet_id sheet_name
                   (the (spec_range_notation sp)) (the (spec_values sp)))
         else if operation = ''find'' then
           (if \<not> has_key sp ''column''
            then (Failure (''Missing '' @ quoted ''column''
                           @ '' field for find operation''), [])
            else if \<not> has_key sp ''value''
            then (Failure (''Missing '' @ quoted ''value''
                           @ '' field for find operation''), [])
            else find_row w spreadsheet_id sheet_name
                   (the (spec_column sp)) (the (spec_value sp)) range_notation)
         else (Failure (''Unknown operation: '' @ operation), []))"
proof -
  have k: "has_key sp ''operation''" using assms(3) by (simp add: has_key_fields)
  have "filter (\<lambda>f. \<not> has_key sp f) [''spreadsheet_id'', ''sheet_name'', ''operation''] = []"
    using assms(1,2) k by simp
  then show ?thesis unfolding sheets_from_spec_def Let_def assms(3) by simp
qed

text \<open>
  Claim C9. When one of \<open>spreadsheet_id\<close>, \<open>sheet_name\<close> and \<open>operation\<close> is not in the
  specification, \<open>sheets_from_spec\<close> returns the failure envelope whose message lists, after
  \<open>Missing required fields\<close>, those of the three that are missing, and it has no effect:
  no credential strategy is invoked and no request is sent. When the three are present the
  same holds for \<open>values\<close> with the operations \<open>append\<close> and \<open>update\<close>, for \<open>rows\<close> with
  \<open>append_rows\<close>, for \<open>range_notation\<close> with \<open>update\<close>, and for \<open>column\<close> and \<open>value\<close>
  with \<open>find\<close>: the message names the first of the fields of the operation that is missing.
\<close>

theorem validation_before_effects:
  "(\<not> has_key sp ''spreadsheet_id'' \<or> \<not> has_key sp ''sheet_name''
      \<or> \<not> has_key sp ''operation'' \<longrightarrow>
      sheets_from_spec w sp
        = (Failure (''Missing required fields: ''
             @ join '', '' (filter (\<lambda>f. \<not> has_key sp f)
                              [''spreadsheet_id'', ''sheet_name'', ''operation''])), []))
   \<and> (has_key sp ''spreadsheet_id'' \<and> has_key sp ''sheet_name'' \<longrightarrow>
       (spec_operation sp = Some ''append'' \<and> \<not> has_key sp ''values'' \<longrightarrow>
          sheets_from_spec w sp
            = (Failure (''Missing '' @ quoted ''values'' @ '' field for append operation''), []))
       \<and> (spec_operation sp = Some ''append_rows'' \<and> \<not> has_key sp ''rows'' \<longrightarrow>
          sheets_from_spec w sp
            = (Failure (''Missing '' @ quoted ''rows''
                        @ '' field for append_rows operation''), []))
       \<and> (spec_operation sp = Some ''update'' \<and> \<not> has_key sp ''range_notation'' \<longrightarrow>
          sheets_from_spec w sp
            = (Failure (''Missing '' @ quoted ''range_notation''
                        @ '' field for update operation''), []))
       \<and> (spec_operation sp = Some ''update'' \<and> has_key sp ''range_notation''
            \<and> \<not> has_key sp ''values'' \<longrightarrow>
          sheets_from_spec w sp
            = (Failure (''Missing '' @ quoted ''values'' @ '' field for update operation''), []))
       \<and> (spec_operation sp = Some ''find'' \<and> \<not> has_key sp ''column'' \<longrightarrow>
          sheets_from_spec w sp
            = (Failure (''Missing '' @ quoted ''column'' @ '' field for find operation''), []))
       \<and> (spec_operation sp = Some ''find'' \<and> has_key sp ''column''
            \<and> \<not> has_key sp ''value'' \<longrightarrow>
          sheets_from_spec w sp
            = (Failure (''Missing '' @ quoted ''value'' @ '' field for find operation''), [])))
   \<and> (\<not> has_key sp ''spreadsheet_id'' \<or> \<not> has_key sp ''sheet_name''
        \<or> \<not> has_key sp ''operation''
        \<or> (spec_operation sp = Some ''append'' \<and> \<not> has_key sp ''values'')
        \<or> (spec_operation sp = Some ''append_rows'' \<and> \<not> has_key sp ''rows'')
        \<or> (spec_operation sp = Some ''update''
             \<and> (\<not> has_key sp ''range_notation'' \<or> \<not> has_key sp ''values''))
        \<or> (spec_operation sp = Some ''find''
             \<and> (\<not> has_key sp ''column'' \<or> \<not> has_key sp ''value'')) \<longrightarrow>
       \<not> success (fst (sheets_from_spec w sp)) \<and> snd (sheets_from_spec w sp) = [])"
proof (intro conjI)
  show "\<not> has_key sp ''spreadsheet_id'' \<or> \<not> has_key sp ''sheet_name''
      \<or> \<not> has_key sp ''operation'' \<longrightarrow>
      sheets_from_spec w sp
        = (Failure (''Missing required fields: ''
             @ join '', '' (filter (\<lambda>f. \<not> has_key sp f)
                              [''spreadsheet_id'', ''sheet_name'', ''operation''])), [])"
    using sheets_from_spec_missing by blast
  show "has_key sp ''spreadsheet_id'' \<and> has_key sp ''sheet_name'' \<longrightarrow>
       (spec_operation sp = Some ''append'' \<and> \<not> has_key sp ''values'' \<longrightarrow>
          sheets_from_spec w sp
            = (Failure (''Missing '' @ quoted ''values'' @ '' field for append operation''), []))
       \<and> (spec_operation sp = Some ''append_rows'' \<and> \<not> has_key sp ''rows'' \<longrightarrow>
          sheets_from_spec w sp
            = (Failure (''Missing '' @ quoted ''rows''
                        @ '' field for append_rows operation''), []))
       \<and> (spec_operation sp = Some ''update'' \<and> \<not> has_key sp ''range_notation'' \<longrightarrow>
          sheets_from_spec w sp
            = (Failure (''Missing '' @ quoted ''range_notation''
                        @ '' field for update operation''), []))
       \<and> (spec_operation sp = Some ''update'' \<and> has_key sp ''range_notation''
            \<and> \<not> has_key sp ''values'' \<longrightarrow>
          sheets_from_spec w sp
            = (Failure (''Missing '' @ quoted ''values'' @ '' field for update operation''), []))
       \<and> (spec_operation sp = Some ''find'' \<and> \<not> has_key sp ''column'' \<longrightarrow>
          sheets_from_spec w sp
            = (Failure (''Missing '' @ quoted ''column'' @ '' field for find operation''), []))
       \<and> (spec_operation sp = Some ''find'' \<and> has_key sp ''column''
            \<and> \<not> has_key sp ''value'' \<longrightarrow>
          sheets_from_spec w sp
            = (Failure (''Missing '' @ quoted ''value'' @ '' field for find operation''), []))"
  proof (intro impI conjI)
    assume b: "has_key sp ''spreadsheet_id'' \<and> has_key sp ''sheet_name''"
    note R = sheets_from_spec_routed [OF conjunct1 [OF b] conjunct2 [OF b]]
    show "sheets_from_spec w sp
            = (Failure (''Missing '' @ quoted ''values'' @ '' field for append operation''), [])"
      if "spec_operation sp = Some ''append'' \<and> \<not> has_key sp ''values''"
      using that by (simp add: R [of "''append''"] Let_def)
    show "sheets_from_spec w sp
            = (Failure (''Missing '' @ quoted ''rows''
                        @ '' field for append_rows operation''), [])"
      if "spec_operation sp = Some ''append_rows'' \<and> \<not> has_key sp ''rows''"
      using that by (simp add: R [of "''append_rows''"] Let_def)
    show "sheets_from_spec w sp
            = (Failure (''Missing '' @ quoted ''range_notation''
                        @ '' field for update operation''), [])"
      if "spec_operation sp = Some ''update'' \<and> \<not> has_key sp ''range_notation''"
      using that by (simp add: R [of "''update''"] Let_def)
    show "sheets_from_spec w sp
            = (Failure (''Missing '' @ quoted ''values'' @ '' field for update operation''), [])"
      if "spec_operation sp = Some ''update'' \<and> has_key sp ''range_notation''
            \<and> \<not> has_key sp ''values''"
      using that by (simp add: R [of "''update''"] Let_def)
    show "sheets_from_spec w sp
            = (Failure (''Missing '' @ quoted ''column'' @ '' field for find operation''), [])"
      if "spec_operation sp = Some ''find'' \<and> \<not> has_key sp ''column''"
      using that by (simp add: R [of "''find''"] Let_def)
    show "sheets_from_spec w sp
            = (Failure (''Missing '' @ quoted ''value'' @ '' field for find operation''), [])"
      if "spec_operation sp = Some ''find'' \<and> has_key sp ''column''
            \<and> \<not> has_key sp ''value''"
      using that by (simp add: R [of "''find''"] Let_def)
  qed
  show "\<not> has_key sp ''spreadsheet_id'' \<or> \<not> has_key sp ''sheet_name''
        \<or> \<not> has_key sp ''operation''
        \<or> (spec_operation sp = Some ''append'' \<and> \<not> has_key sp ''values'')
        \<or> (spec_operation sp = Some ''append_rows'' \<and> \<not> has_key sp ''rows'')
        \<or> (spec_operation sp = Some ''update''
             \<and> (\<not> has_key sp ''range_notation'' \<or> \<not> has_key sp ''values''))
        \<or> (spec_operation sp = Some ''find''
             \<and> (\<not> has_key sp ''column'' \<or> \<not> has_key sp ''value'')) \<longrightarrow>
       \<not> success (fst (sheets_from_spec w sp)) \<and> snd (sheets_from_spec w sp) = []"
  proof (cases "\<not> has_key sp ''spreadsheet_id'' \<or> \<not> has_key sp ''sheet_name''
        \<or> \<not> has_key sp ''operation''")
    case True
    show ?thesis unfolding sheets_from_spec_missing [OF True] by simp
  next
    case False
    then have b: "has_key sp ''spreadsheet_id''" "has_key sp ''sheet_name''" by simp_all
    note R = sheets_from_spec_routed [OF b]
    show ?thesis
    proof (intro impI)
      assume "\<not> has_key sp ''spreadsheet_id'' \<or> \<not> has_key sp ''sheet_name''
        \<or> \<not> has_key sp ''operation''
        \<or> (spec_operation sp = Some ''append'' \<and> \<not> has_key sp ''values'')
        \<or> (spec_operation sp = Some ''append_rows'' \<and> \<not> has_key sp ''rows'')
        \<or> (spec_operation sp = Some ''update''
             \<and> (\<not> has_key sp ''range_notation'' \<or> \<not> has_key sp ''values''))
        \<or> (spec_operation sp = Some ''find''
             \<and> (\<not> has_key sp ''column'' \<or> \<not> has_key sp ''value''))"
      with False consider
          "spec_operation sp = Some ''append''" "\<not> has_key sp ''values''"
        | "spec_operation sp = Some ''append_rows''" "\<not> has_key sp ''rows''"
        | "spec_operation sp = Some ''update''"
          "\<not> has_key sp ''range_notation'' \<or> \<not> has_key sp ''values''"
        | "spec_operation sp = Some ''find''"
          "\<not> has_key sp ''column'' \<or> \<not> has_key sp ''value''"
        by blast
      then show "\<not> success (fst (sheets_from_spec w sp)) \<and> snd (sheets_from_spec w sp) = []"
      proof cases
        case 1
        then show ?thesis by (simp add: R [of "''append''"] Let_def)
      next
        case 2
        then show ?thesis by (simp add: R [of "''append_rows''"] Let_def)
      next
        case 3
        then show ?thesis by (auto simp add: R [of "''update''"] Let_def)
      next
        case 4
        then show ?thesis by (auto simp add: R [of "''find''"] Let_def)
      qed
    qed
  qed
qed

text \<open>
  An \<open>append\<close> without \<open>values\<close>, and a specification that has the operation only: the
  envelope names what is missing and nothing is looked up or sent.
\<close>

theorem validation_before_effects_witness:
  "sheets_from_spec (test_world [] [] (Inr None) 200)
     \<lparr> spec_spreadsheet_id = Some ''S1'', spec_sheet_name = Some ''Sheet1'',
       spec_operation = Some ''append'', spec_values = None, spec_rows = None,
       spec_range_notation = None, spec_column = None, spec_value = None \<rparr>
     = (Failure (''Missing '' @ quoted ''values'' @ '' field for append operation''), [])
   \<and> sheets_from_spec (test_world [] [] (Inr None) 200)
     \<lparr> spec_spreadsheet_id = None, spec_sheet_name = None,
       spec_operation = Some ''read'', spec_values = None, spec_rows = None,
       spec_range_notation = None, spec_column = None, spec_value = None \<rparr>
     = (Failure ''Missing required fields: spreadsheet_id, sheet_name'', [])"
proof (intro conjI)
  let ?w = "test_world [] [] (Inr None) 200 :: (unit, unit) world"
  let ?a = "\<lparr> spec_spreadsheet_id = Some ''S1'', spec_sheet_name = Some ''Sheet1'',
       spec_operation = Some ''append'', spec_values = None, spec_rows = None,
       spec_range_notation = None, spec_column = None, spec_value = None \<rparr>"
  let ?b = "\<lparr> spec_spreadsheet_id = None, spec_sheet_name = None,
       spec_operation = Some ''read'', spec_values = None, spec_rows = None,
       spec_range_notation = None, spec_column = None, spec_value = None \<rparr>"
  have b: "has_key ?a ''spreadsheet_id'' \<and> has_key ?a ''sheet_name''"
    by (simp add: has_key_fields)
  have h: "spec_operation ?a = Some ''append'' \<and> \<not> has_key ?a ''values''"
    by (simp add: has_key_fields)
  show "sheets_from_spec ?w ?a
     = (Failure (''Missing '' @ quoted ''values'' @ '' field for append operation''), [])"
    using validation_before_effects [where w = ?w and sp = ?a, THEN conjunct2, THEN conjunct1,
        THEN mp, OF b, THEN conjunct1, THEN mp, OF h] .
  have m: "\<not> has_key ?b ''spreadsheet_id'' \<or> \<not> has_key ?b ''sheet_name''
      \<or> \<not> has_key ?b ''operation''"
    by (simp add: has_key_fields)
  have f: "filter (\<lambda>f. \<not> has_key ?b f) [''spreadsheet_id'', ''sheet_name'', ''operation'']
             = [''spreadsheet_id'', ''sheet_name'']"
    by (simp add: has_key_fields)
  have j: "''Missing required fields: '' @ join '', '' [''spreadsheet_id'', ''sheet_name'']
             = ''Missing required fields: spreadsheet_id, sheet_name''"
    by simp
  note T = validation_before_effects [where w = ?w and sp = ?b, THEN conjunct1, THEN mp, OF m]
  show "sheets_from_spec ?w ?b
     = (Failure ''Missing required fields: spreadsheet_id, sheet_name'', [])"
    unfolding T f j ..
qed

section \<open>Failures of the vendor\<close>






end
